theory Spec2Isabelle
  imports Complex_Main "HOL-Library.Sublist"
begin

section \<open>JavaScript values and the built-in operations the two views use\<close>

text \<open>
  Both views handle values that come out of \<^verbatim>\<open>JSON.parse\<close> or \<^verbatim>\<open>response.json()\<close>, so a
  field read from the upstream payload may hold any JSON value. Numbers are the exact
  rational values of the doubles; the program does no arithmetic on them besides
  comparison. Strings are lists of code units; the characters below 256 are modelled.
\<close>

datatype jsval =
    JUndefined
  | JNull
  | JBool bool
  | JNum rat
  | JStr string
  | JArr "jsval list"
  | JObj "(string \<times> jsval) list"

datatype jsnum = NaN | NegInf | Fin rat | PosInf

text \<open>An exception carries the text of its \<^verbatim>\<open>message\<close> property.\<close>

datatype exn = Error string | TypeError string

text \<open>
  The operations of the language and the browser that the source calls but does not
  define. \<open>ToNumber\<close> is consulted for strings, arrays and objects only, \<open>ToString\<close> for
  numbers, arrays and objects only (see \<open>Number\<close> and \<open>StringOf\<close> below); \<open>JSON_parse\<close> and
  \<open>decodeURIComponent\<close> return \<open>None\<close> where the built-in throws; \<open>innerHTML\<close> is the
  forest that the HTML parser builds for the children of an element; \<open>typeErrorMessage\<close>
  is the engine's text for a property read on \<^verbatim>\<open>null\<close>.
\<close>

datatype dom = TextNode string | Comment string | Element string "dom list"

record builtins =
  ToNumber :: "jsval \<Rightarrow> jsnum"
  ToString :: "jsval \<Rightarrow> string"
  JSON_stringify :: "jsval \<Rightarrow> string"
  JSON_parse :: "string \<Rightarrow> jsval option"
  decodeURIComponent :: "string \<Rightarrow> string option"
  innerHTML :: "string \<Rightarrow> dom list"
  typeErrorMessage :: "string \<Rightarrow> string"

fun truthy :: "jsval \<Rightarrow> bool" where
  "truthy JUndefined = False"
| "truthy JNull = False"
| "truthy (JBool b) = b"
| "truthy (JNum r) = (r \<noteq> 0)"
| "truthy (JStr s) = (s \<noteq> [])"
| "truthy (JArr xs) = True"
| "truthy (JObj kvs) = True"

definition or_else :: "jsval \<Rightarrow> jsval \<Rightarrow> jsval" where
  \<comment> \<open>\<^verbatim>\<open>a || b\<close>\<close>
  "or_else a b = (if truthy a then a else b)"

text \<open>
  \<^verbatim>\<open>v.k\<close> for the fixed keys the program reads (\<^verbatim>\<open>data\<close>, \<^verbatim>\<open>result\<close>, \<^verbatim>\<open>message\<close>, \<^verbatim>\<open>id\<close>,
  \<^verbatim>\<open>exe_name\<close>, \<^verbatim>\<open>name\<close>, \<^verbatim>\<open>score\<close>, \<^verbatim>\<open>justification\<close>, \<^verbatim>\<open>experience\<close>, \<^verbatim>\<open>email\<close>,
  \<^verbatim>\<open>phone\<close>). None of them is defined on the prototype of objects, arrays, strings,
  numbers or booleans, so the read finds an own property of a parsed object and
  \<^verbatim>\<open>undefined\<close> on every other value; on \<^verbatim>\<open>null\<close> and \<^verbatim>\<open>undefined\<close> it throws.
  A parsed object lists each of its keys once.
\<close>

fun nullish :: "jsval \<Rightarrow> bool" where
  "nullish JUndefined = True"
| "nullish JNull = True"
| "nullish v = False"

fun own :: "jsval \<Rightarrow> string \<Rightarrow> jsval" where
  \<comment> \<open>the value read from a value that is neither \<^verbatim>\<open>null\<close> nor \<^verbatim>\<open>undefined\<close>\<close>
  "own (JObj kvs) k = (case map_of kvs k of None \<Rightarrow> JUndefined | Some v \<Rightarrow> v)"
| "own v k = JUndefined"

definition getProp :: "jsval \<Rightarrow> string \<Rightarrow> exn + jsval" where
  "getProp v k = (if nullish v then Inl (TypeError k) else Inr (own v k))"

fun Number :: "builtins \<Rightarrow> jsval \<Rightarrow> jsnum" where
  "Number b JUndefined = NaN"
| "Number b JNull = Fin 0"
| "Number b (JBool t) = Fin (if t then 1 else 0)"
| "Number b (JNum r) = Fin r"
| "Number b v = ToNumber b v"

fun StringOf :: "builtins \<Rightarrow> jsval \<Rightarrow> string" where
  "StringOf b (JStr s) = s"
| "StringOf b JUndefined = ''undefined''"
| "StringOf b JNull = ''null''"
| "StringOf b (JBool t) = (if t then ''true'' else ''false'')"
| "StringOf b v = ToString b v"

fun num_le :: "jsnum \<Rightarrow> jsnum \<Rightarrow> bool" where
  \<comment> \<open>\<^verbatim>\<open>a <= b\<close> on numbers: false as soon as one side is NaN\<close>
  "num_le NaN y = False"
| "num_le x NaN = False"
| "num_le NegInf y = True"
| "num_le x PosInf = True"
| "num_le (Fin a) (Fin b) = (a \<le> b)"
| "num_le x y = False"

subsection \<open>Strings\<close>

definition is_space :: "char \<Rightarrow> bool" where
  \<comment> \<open>white space and line terminators below 256: TAB, LF, VT, FF, CR, SP, NBSP\<close>
  "is_space c = (of_char c \<in> {9, 10, 11, 12, 13, 32, 160 :: nat})"

definition trim :: "string \<Rightarrow> string" where
  "trim s = rev (dropWhile is_space (rev (dropWhile is_space s)))"

definition lower_char :: "char \<Rightarrow> char" where
  \<comment> \<open>A..Z and the Latin-1 capitals (all of 192..222 but the multiplication sign 215)\<close>
  "lower_char c =
     (let n = of_char c :: nat
      in if (65 \<le> n \<and> n \<le> 90) \<or> (192 \<le> n \<and> n \<le> 222 \<and> n \<noteq> 215)
         then char_of (n + 32) else c)"

definition toLowerCase :: "string \<Rightarrow> string" where
  "toLowerCase s = map lower_char s"

definition includes_str :: "string \<Rightarrow> string \<Rightarrow> bool" where
  \<comment> \<open>\<^verbatim>\<open>hay.includes(needle)\<close>\<close>
  "includes_str hay needle = sublist needle hay"

fun split_comma :: "string \<Rightarrow> string list" where
  \<comment> \<open>\<^verbatim>\<open>s.split(",")\<close>\<close>
  "split_comma [] = [[]]"
| "split_comma (c # cs) =
     (if c = CHR '','' then [] # split_comma cs
      else (case split_comma cs of
              w # ws \<Rightarrow> (c # w) # ws
            | [] \<Rightarrow> [[c]]))"

fun join_comma :: "string list \<Rightarrow> string" where
  \<comment> \<open>\<^verbatim>\<open>xs.join(",")\<close> on strings\<close>
  "join_comma [] = []"
| "join_comma [w] = w"
| "join_comma (w # ws) = w @ CHR '','' # join_comma ws"

function decimal :: "nat \<Rightarrow> string" where
  \<comment> \<open>the text of a non-negative integer in a template literal\<close>
  "decimal n =
     (if n < 10 then [char_of (48 + n)]
      else decimal (n div 10) @ [char_of (48 + n mod 10)])"
  by pat_completeness auto
termination
  by (relation "measure id") auto

declare decimal.simps [simp del]

section \<open>The results view (ResumeList)\<close>

record resume =
  orgId :: jsval
  exeName :: jsval
  candidateId :: nat
  name :: jsval
  Rank :: jsval
  justification :: jsval
  experience :: rat
  email :: jsval
  phone :: jsval

text \<open>
  The component state that the loader and the filter use. The hooks \<^verbatim>\<open>storedSkills\<close>,
  \<^verbatim>\<open>storedResumes\<close>, \<^verbatim>\<open>error\<close> and \<^verbatim>\<open>loading\<close> are declared and never written.
\<close>

record list_state =
  resumes :: "resume list"
  searchQuery :: string
  scoreRange :: "rat \<times> rat"
  experienceRange :: "rat \<times> rat"
  filterEmail :: bool
  filterPhone :: bool
  userKeySkills :: "jsval list"
  caseId :: jsval

definition initial_list_state :: list_state where
  "initial_list_state =
     \<lparr> resumes = [], searchQuery = [], scoreRange = (1, 10), experienceRange = (0, 35),
       filterEmail = False, filterPhone = False, userKeySkills = [], caseId = JNull \<rparr>"

text \<open>
  The object literal that the callback of \<^verbatim>\<open>parsedResumes.result.map\<close> returns at the
  0-based \<open>index\<close>, and the callback itself: reading a property of \<^verbatim>\<open>null\<close> throws.
\<close>

definition display :: "jsval \<Rightarrow> nat \<Rightarrow> jsval \<Rightarrow> resume" where
  "display parsedResumes index item =
     \<lparr> orgId = own parsedResumes ''id'',
       exeName = own parsedResumes ''exe_name'',
       candidateId = index + 1,
       name = or_else (own item ''name'') (JStr (''Candidate '' @ decimal (index + 1))),
       Rank = or_else (own item ''score'') (JNum 0),
       justification = or_else (own item ''justification'') (JStr []),
       experience = (case own item ''experience'' of JNum r \<Rightarrow> r | _ \<Rightarrow> 0),
       email = (if own item ''email'' = JStr ''xxx'' \<or> \<not> truthy (own item ''email'')
                then JStr ''No email'' else own item ''email''),
       phone = (if own item ''phone'' = JStr ''xxx'' \<or> \<not> truthy (own item ''phone'')
                then JStr ''No phone'' else own item ''phone'') \<rparr>"

definition mapItem :: "jsval \<Rightarrow> nat \<Rightarrow> jsval \<Rightarrow> exn + resume" where
  "mapItem parsedResumes index item =
     (if nullish parsedResumes then Inl (TypeError ''id'')
      else if nullish item then Inl (TypeError ''name'')
      else Inr (display parsedResumes index item))"

fun map_from :: "(nat \<Rightarrow> 'a \<Rightarrow> exn + 'b) \<Rightarrow> nat \<Rightarrow> 'a list \<Rightarrow> exn + 'b list" where
  \<comment> \<open>\<^verbatim>\<open>Array.prototype.map\<close> with a callback that may throw; \<open>i\<close> is the index of the head\<close>
  "map_from f i [] = Inr []"
| "map_from f i (x # xs) =
     (case f i x of
        Inl e \<Rightarrow> Inl e
      | Inr y \<Rightarrow> (case map_from f (Suc i) xs of Inl e \<Rightarrow> Inl e | Inr ys \<Rightarrow> Inr (y # ys)))"

text \<open>
  The mount effect. Everything runs inside one \<^verbatim>\<open>try\<close>; the \<^verbatim>\<open>catch\<close> only logs, so a
  throw keeps the state as it was set up to that point.
\<close>

definition getItem :: "(string \<rightharpoonup> string) \<Rightarrow> string \<Rightarrow> string option" where
  "getItem store k = store k"

definition parseStored :: "builtins \<Rightarrow> string option \<Rightarrow> jsval \<Rightarrow> jsval option" where
  \<comment> \<open>\<^verbatim>\<open>stored ? JSON.parse(stored) : dflt\<close>; \<open>None\<close> when the parse throws\<close>
  "parseStored b stored dflt =
     (case stored of
        None \<Rightarrow> Some dflt
      | Some t \<Rightarrow> if t = [] then Some dflt else JSON_parse b t)"

definition setResumesFrom :: "jsval \<Rightarrow> list_state \<Rightarrow> list_state" where
  \<comment> \<open>the \<^verbatim>\<open>if (parsedResumes && Array.isArray(parsedResumes.result))\<close> block\<close>
  "setResumesFrom parsedResumes st =
     (if \<not> truthy parsedResumes then st
      else case own parsedResumes ''result'' of
             JArr items \<Rightarrow>
               (case map_from (mapItem parsedResumes) 0 items of
                  Inl e \<Rightarrow> st
                | Inr mapped \<Rightarrow> st\<lparr>resumes := mapped, caseId := own parsedResumes ''id''\<rparr>)
           | _ \<Rightarrow> st)"

definition loadStored :: "builtins \<Rightarrow> (string \<rightharpoonup> string) \<Rightarrow> list_state \<Rightarrow> list_state" where
  "loadStored b store st =
     (case parseStored b (getItem store ''keySkills'') (JArr []) of
        None \<Rightarrow> st
      | Some parsedSkills \<Rightarrow>
          (let st1 = st\<lparr>userKeySkills := (case parsedSkills of JArr xs \<Rightarrow> xs | _ \<Rightarrow> [])\<rparr>
           in case parseStored b (getItem store ''resumeResults'') JNull of
                None \<Rightarrow> st1
              | Some parsedResumes \<Rightarrow> setResumesFrom parsedResumes st1))"

subsection \<open>The filter\<close>

definition rankOf :: "builtins \<Rightarrow> resume \<Rightarrow> jsnum" where
  \<comment> \<open>\<^verbatim>\<open>Number(resume.Rank) || 0\<close>: NaN and zero are falsy\<close>
  "rankOf b r = (let n = Number b (Rank r) in if n = NaN \<or> n = Fin 0 then Fin 0 else n)"

definition lowerIncludes :: "jsval \<Rightarrow> string \<Rightarrow> exn + bool" where
  \<comment> \<open>\<^verbatim>\<open>v.toLowerCase().includes(query)\<close>; only a string has \<^verbatim>\<open>toLowerCase\<close>\<close>
  "lowerIncludes v query =
     (case v of JStr s \<Rightarrow> Inr (includes_str (toLowerCase s) query)
      | _ \<Rightarrow> Inl (TypeError ''toLowerCase''))"

definition orElseThrowing :: "exn + bool \<Rightarrow> exn + bool \<Rightarrow> exn + bool" where
  \<comment> \<open>\<^verbatim>\<open>a || b\<close> read for its truth value: \<open>b\<close> is evaluated only when \<open>a\<close> is false\<close>
  "orElseThrowing a b = (case a of Inl e \<Rightarrow> Inl e | Inr t \<Rightarrow> if t then Inr True else b)"

definition guarded :: "jsval \<Rightarrow> string \<Rightarrow> exn + bool" where
  \<comment> \<open>\<^verbatim>\<open>v && v.toLowerCase().includes(query)\<close>\<close>
  "guarded v query = (if truthy v then lowerIncludes v query else Inr False)"

definition matchesSearch :: "string \<Rightarrow> resume \<Rightarrow> exn + bool" where
  "matchesSearch query r =
     orElseThrowing (lowerIncludes (name r) query)
       (orElseThrowing (guarded (email r) query) (guarded (justification r) query))"

definition inScoreRange :: "builtins \<Rightarrow> list_state \<Rightarrow> resume \<Rightarrow> bool" where
  "inScoreRange b st r =
     (num_le (Fin (fst (scoreRange st))) (rankOf b r) \<and>
      num_le (rankOf b r) (Fin (snd (scoreRange st))))"

definition inExperienceRange :: "list_state \<Rightarrow> resume \<Rightarrow> bool" where
  "inExperienceRange st r =
     (fst (experienceRange st) \<le> experience r \<and> experience r \<le> snd (experienceRange st))"

definition hasEmail :: "list_state \<Rightarrow> resume \<Rightarrow> bool" where
  "hasEmail st r =
     (if filterEmail st then truthy (email r) \<and> email r \<noteq> JStr ''No email'' else True)"

definition hasPhone :: "list_state \<Rightarrow> resume \<Rightarrow> bool" where
  "hasPhone st r =
     (if filterPhone st then truthy (phone r) \<and> phone r \<noteq> JStr ''No phone'' else True)"

definition keeps :: "builtins \<Rightarrow> list_state \<Rightarrow> resume \<Rightarrow> exn + bool" where
  \<comment> \<open>the callback of \<^verbatim>\<open>resumes.filter\<close>; the five constants are computed in order\<close>
  "keeps b st r =
     (case matchesSearch (trim (toLowerCase (searchQuery st))) r of
        Inl e \<Rightarrow> Inl e
      | Inr m \<Rightarrow> Inr (m \<and> inScoreRange b st r \<and> inExperienceRange st r
                     \<and> hasEmail st r \<and> hasPhone st r))"

fun filter_js :: "('a \<Rightarrow> exn + bool) \<Rightarrow> 'a list \<Rightarrow> exn + 'a list" where
  \<comment> \<open>\<^verbatim>\<open>Array.prototype.filter\<close> with a callback that may throw\<close>
  "filter_js p [] = Inr []"
| "filter_js p (x # xs) =
     (case p x of
        Inl e \<Rightarrow> Inl e
      | Inr keep \<Rightarrow>
          (case filter_js p xs of
             Inl e \<Rightarrow> Inl e
           | Inr ys \<Rightarrow> Inr (if keep then x # ys else ys)))"

definition filteredResumes :: "builtins \<Rightarrow> list_state \<Rightarrow> exn + resume list" where
  "filteredResumes b st = filter_js (keeps b st) (resumes st)"

datatype skills_view = Chips "jsval list" | NoKeySkills

definition keySkillsView :: "list_state \<Rightarrow> skills_view" where
  \<comment> \<open>the Key Skills box: one chip per entry, or the placeholder text\<close>
  "keySkillsView st =
     (if length (userKeySkills st) > 0 then Chips (userKeySkills st) else NoKeySkills)"

subsection \<open>Rendering with the memoised filter\<close>

text \<open>
  The filtered view is memoised with \<^verbatim>\<open>useMemo\<close> on the dependency list
  \<^verbatim>\<open>[scoreRange, experienceRange, filterEmail, filterPhone, resumes]\<close>, which leaves
  \<^verbatim>\<open>searchQuery\<close> out. A render reuses the memoised value when no dependency changed.
  The events are the handlers that the component wires up: the two sliders and the two
  check boxes. (React compares dependencies by identity; comparing them by value, as
  here, reuses the memoised value at least as often.)
\<close>

type_synonym deps = "(rat \<times> rat) \<times> (rat \<times> rat) \<times> bool \<times> bool \<times> resume list"

definition depsOf :: "list_state \<Rightarrow> deps" where
  "depsOf st = (scoreRange st, experienceRange st, filterEmail st, filterPhone st, resumes st)"

record rendering =
  current :: list_state
  memoDeps :: deps
  memoValue :: "exn + resume list"

definition firstRender :: "builtins \<Rightarrow> list_state \<Rightarrow> rendering" where
  "firstRender b st = \<lparr> current = st, memoDeps = depsOf st, memoValue = filteredResumes b st \<rparr>"

definition rerender :: "builtins \<Rightarrow> list_state \<Rightarrow> rendering \<Rightarrow> rendering" where
  "rerender b st r =
     \<lparr> current = st,
       memoDeps = depsOf st,
       memoValue = (if depsOf st = memoDeps r then memoValue r else filteredResumes b st) \<rparr>"

datatype event =
    ScoreRangeChanged "rat \<times> rat"
  | ExperienceRangeChanged "rat \<times> rat"
  | EmailToggled
  | PhoneToggled

fun handle :: "event \<Rightarrow> list_state \<Rightarrow> list_state" where
  "handle (ScoreRangeChanged v) st = st\<lparr>scoreRange := v\<rparr>"
| "handle (ExperienceRangeChanged v) st = st\<lparr>experienceRange := v\<rparr>"
| "handle EmailToggled st = st\<lparr>filterEmail := \<not> filterEmail st\<rparr>"
| "handle PhoneToggled st = st\<lparr>filterPhone := \<not> filterPhone st\<rparr>"

definition mount :: "builtins \<Rightarrow> (string \<rightharpoonup> string) \<Rightarrow> rendering" where
  \<comment> \<open>the first render, then the render after the mount effect\<close>
  "mount b ls =
     rerender b (loadStored b ls initial_list_state) (firstRender b initial_list_state)"

definition dispatch :: "builtins \<Rightarrow> event \<Rightarrow> rendering \<Rightarrow> rendering" where
  "dispatch b e r = rerender b (handle e (current r)) r"

text \<open>
  A rendering is fresh when the memoised value is the value of the filter at the current
  state.
\<close>

definition fresh :: "builtins \<Rightarrow> rendering \<Rightarrow> bool" where
  "fresh b r \<longleftrightarrow>
     memoValue r = filteredResumes b (current r) \<and> memoDeps r = depsOf (current r)
     \<and> searchQuery (current r) = []"

section \<open>The submission view (App)\<close>

text \<open>
  The job type held by the form is a string, or a member that a lookup in the object
  literal \<^verbatim>\<open>jobTypeMap\<close> found on \<^verbatim>\<open>Object.prototype\<close> (a function, or the prototype
  object itself for \<^verbatim>\<open>__proto__\<close>).
\<close>

datatype jobtype_value = JobType string | Inherited string

datatype upload = File string | NotAFile

datatype resume_files = NoFiles | FileArray "upload list" | Single upload

record form_data =
  jobTitle :: string
  yearsOfExperience :: string
  jobType :: jobtype_value
  industry :: string
  requiredSkills :: string
  jobDescription :: string
  resumeFiles :: resume_files
  source :: string

definition initial_form_data :: form_data where
  "initial_form_data =
     \<lparr> jobTitle = [], yearsOfExperience = [], jobType = JobType [], industry = [],
       requiredSkills = [], jobDescription = [], resumeFiles = FileArray [], source = [] \<rparr>"

subsection \<open>Defaults from the URL\<close>

definition decodeSafe :: "builtins \<Rightarrow> string \<Rightarrow> string" where
  "decodeSafe b str = (case decodeURIComponent b str of Some s \<Rightarrow> s | None \<Rightarrow> [])"

definition param :: "(string \<rightharpoonup> string) \<Rightarrow> string \<Rightarrow> string" where
  \<comment> \<open>\<^verbatim>\<open>params.get(k) || ''\<close>\<close>
  "param params k = (case params k of None \<Rightarrow> [] | Some v \<Rightarrow> v)"

definition jobTypeMap :: "(string \<times> string) list" where
  "jobTypeMap =
     [(''Full time'', ''fulltime''),
      (''Part time'', ''parttime''),
      (''Contract'', ''contract''),
      (''Freelance'', ''freelance''),
      (''Internship'', ''internship'')]"

definition objectPrototypeKeys :: "string list" where
  \<comment> \<open>the properties every object literal inherits\<close>
  "objectPrototypeKeys =
     [''constructor'', ''__defineGetter__'', ''__defineSetter__'', ''hasOwnProperty'',
      ''__lookupGetter__'', ''__lookupSetter__'', ''isPrototypeOf'',
      ''propertyIsEnumerable'', ''toString'', ''valueOf'', ''__proto__'',
      ''toLocaleString'']"

definition lookupJobType :: "string \<Rightarrow> jobtype_value option" where
  \<comment> \<open>\<^verbatim>\<open>jobTypeMap[label]\<close>: own properties first, then the prototype; \<open>None\<close> is \<^verbatim>\<open>undefined\<close>\<close>
  "lookupJobType label =
     (case map_of jobTypeMap label of
        Some v \<Rightarrow> Some (JobType v)
      | None \<Rightarrow> if label \<in> set objectPrototypeKeys then Some (Inherited label) else None)"

fun jobTypeTruthy :: "jobtype_value \<Rightarrow> bool" where
  "jobTypeTruthy (JobType s) = (s \<noteq> [])"
| "jobTypeTruthy (Inherited k) = True"

definition mappedJobType :: "builtins \<Rightarrow> (string \<rightharpoonup> string) \<Rightarrow> jobtype_value" where
  "mappedJobType b params =
     (let jobTypeLabel = trim (decodeSafe b (param params ''jobtype''))
      in case lookupJobType jobTypeLabel of
           None \<Rightarrow> JobType []
         | Some v \<Rightarrow> if jobTypeTruthy v then v else JobType [])"

definition populateFromUrl :: "builtins \<Rightarrow> (string \<rightharpoonup> string) \<Rightarrow> form_data \<Rightarrow> form_data" where
  "populateFromUrl b params prev =
     prev\<lparr> requiredSkills := decodeSafe b (param params ''skills''),
           jobDescription := decodeSafe b (param params ''job''),
           yearsOfExperience := decodeSafe b (param params ''yoe''),
           jobTitle := decodeSafe b (param params ''jobtitle''),
           jobType := mappedJobType b params,
           source := decodeSafe b (param params ''source'') \<rparr>"

subsection \<open>stripHtml\<close>

definition blockTags :: "string list" where
  "blockTags = [''p'', ''div'', ''br'', ''li'']"

fun appendSpace :: "string \<Rightarrow> dom \<Rightarrow> dom" where
  \<comment> \<open>one pass of the \<^verbatim>\<open>forEach\<close>: every descendant element named \<open>tag\<close> gets a new last
      child, the text node of one space\<close>
  "appendSpace tag (TextNode s) = TextNode s"
| "appendSpace tag (Comment s) = Comment s"
| "appendSpace tag (Element n kids) =
     Element n (map (appendSpace tag) kids @ (if n = tag then [TextNode '' ''] else []))"

fun textContent :: "dom \<Rightarrow> string" where
  "textContent (TextNode s) = s"
| "textContent (Comment s) = []"
| "textContent (Element n kids) = concat (map textContent kids)"

definition innerText :: "dom list \<Rightarrow> string" where
  \<comment> \<open>the \<^verbatim>\<open>div\<close> is never attached to the document; for an element that is not rendered
      \<^verbatim>\<open>innerText\<close> returns what \<^verbatim>\<open>textContent\<close> returns\<close>
  "innerText kids = concat (map textContent kids)"

definition stripHtml :: "builtins \<Rightarrow> string \<Rightarrow> string" where
  "stripHtml b html =
     (let kids = fold (\<lambda>tag. map (appendSpace tag)) blockTags (innerHTML b html);
          tc = concat (map textContent kids)
      in trim (if tc \<noteq> [] then tc else if innerText kids \<noteq> [] then innerText kids else []))"

subsection \<open>handleSubmit\<close>

record toast =
  title :: string
  description :: string
  variant :: string

record job_payload =
  org_id :: jsnum
  exe_name :: string
  workflow_id :: string
  job_description :: string
  payload_source :: string

text \<open>
  The multipart body: the field \<^verbatim>\<open>data\<close> carries the JSON text of the payload object,
  the field \<^verbatim>\<open>resumes\<close> is repeated for every entry that is a \<^verbatim>\<open>File\<close>.
\<close>

record request =
  url :: string
  http_method :: string
  data :: job_payload
  resumes_part :: "string list"

datatype fetch_outcome =
    Rejected string
  | Responded nat "jsval option"

record app_state =
  formData :: form_data
  localStorage :: "string \<rightharpoonup> string"
  navigations :: "string list"
  toasts :: "toast list"
  requests :: "request list"
  console_errors :: "exn list"

definition showToast :: "toast \<Rightarrow> app_state \<Rightarrow> app_state" where
  "showToast t st = st\<lparr>toasts := toasts st @ [t]\<rparr>"

definition navigate :: "string \<Rightarrow> app_state \<Rightarrow> app_state" where
  "navigate path st = st\<lparr>navigations := navigations st @ [path]\<rparr>"

definition setItem :: "string \<Rightarrow> string \<Rightarrow> app_state \<Rightarrow> app_state" where
  \<comment> \<open>the write is taken to succeed: the storage quota is not modelled\<close>
  "setItem k v st = st\<lparr>localStorage := (localStorage st)(k \<mapsto> v)\<rparr>"

definition noFiles :: "resume_files \<Rightarrow> bool" where
  \<comment> \<open>\<^verbatim>\<open>!formData.resumeFiles || formData.resumeFiles.length === 0\<close>\<close>
  "noFiles fs = (case fs of NoFiles \<Rightarrow> True | FileArray xs \<Rightarrow> xs = [] | Single u \<Rightarrow> False)"

definition filesOf :: "resume_files \<Rightarrow> upload list" where
  \<comment> \<open>\<^verbatim>\<open>Array.isArray(resumeFiles) ? resumeFiles : [resumeFiles]\<close>\<close>
  "filesOf fs = (case fs of FileArray xs \<Rightarrow> xs | Single u \<Rightarrow> [u] | NoFiles \<Rightarrow> [NotAFile])"

fun fileNames :: "upload list \<Rightarrow> string list" where
  \<comment> \<open>the entries appended under \<^verbatim>\<open>resumes\<close>: those that are a \<^verbatim>\<open>File\<close>\<close>
  "fileNames [] = []"
| "fileNames (File n # us) = n # fileNames us"
| "fileNames (NotAFile # us) = fileNames us"

definition jobPayload :: "builtins \<Rightarrow> app_state \<Rightarrow> job_payload" where
  "jobPayload b st =
     \<lparr> org_id = (case getItem (localStorage st) ''orgId'' of
                    None \<Rightarrow> Fin 1
                  | Some t \<Rightarrow> if t = [] then Fin 1 else Number b (JStr t)),
       exe_name = requiredSkills (formData st),
       workflow_id = ''resume_ranker'',
       job_description =
         (let text = stripHtml b (jobDescription (formData st))
          in if text \<noteq> [] then text else ''No description''),
       payload_source = source (formData st) \<rparr>"

definition buildRequest :: "builtins \<Rightarrow> app_state \<Rightarrow> request" where
  "buildRequest b st =
     \<lparr> url = ''https://agentic-ai.co.in/api/agentic-ai/workflow-exe'',
       http_method = ''POST'',
       data = jobPayload b st,
       resumes_part = fileNames (filesOf (resumeFiles (formData st))) \<rparr>"

definition ok :: "nat \<Rightarrow> bool" where
  \<comment> \<open>\<^verbatim>\<open>response.ok\<close>\<close>
  "ok status = (200 \<le> status \<and> status \<le> 299)"

text \<open>
  The part of the \<^verbatim>\<open>try\<close> block after the request was sent, up to the value that is
  written under \<^verbatim>\<open>resumeResults\<close>: \<^verbatim>\<open>result.data?.result || []\<close>.
\<close>

definition notOkError :: "builtins \<Rightarrow> nat \<Rightarrow> jsval \<Rightarrow> exn" where
  \<comment> \<open>what \<^verbatim>\<open>throw new Error(result.message || `Upload failed with status ...`)\<close> throws\<close>
  "notOkError b status result =
     (case getProp result ''message'' of
        Inl e \<Rightarrow> e
      | Inr m \<Rightarrow> Error (if truthy m then StringOf b m
                        else ''Upload failed with status '' @ decimal status))"

definition dataResult :: "jsval \<Rightarrow> exn + jsval" where
  \<comment> \<open>\<^verbatim>\<open>result.data?.result || []\<close>\<close>
  "dataResult result =
     (case getProp result ''data'' of
        Inl e \<Rightarrow> Inl e
      | Inr d \<Rightarrow> Inr (or_else (if nullish d then JUndefined else own d ''result'') (JArr [])))"

definition received :: "builtins \<Rightarrow> fetch_outcome \<Rightarrow> exn + jsval" where
  "received b outcome =
     (case outcome of
        Rejected m \<Rightarrow> Inl (Error m)
      | Responded status body \<Rightarrow>
          (case body of
             None \<Rightarrow> Inl (Error ''Server did not return JSON'')
           | Some result \<Rightarrow>
               if \<not> ok status then Inl (notOkError b status result) else dataResult result))"

definition message :: "builtins \<Rightarrow> exn \<Rightarrow> string" where
  "message b e = (case e of Error m \<Rightarrow> m | TypeError k \<Rightarrow> typeErrorMessage b k)"

definition missingInformation :: toast where
  "missingInformation =
     \<lparr> title = ''Missing Information'',
       description = ''Please fill in all required fields before submitting.'',
       variant = ''destructive'' \<rparr>"

definition missingResume :: toast where
  "missingResume =
     \<lparr> title = ''Missing Resume'',
       description = ''Please upload at least one resume before submitting.'',
       variant = ''destructive'' \<rparr>"

definition success :: toast where
  "success =
     \<lparr> title = ''Success'',
       description = ''Job submitted and resumes processed successfully.'',
       variant = ''default'' \<rparr>"

definition submissionError :: "builtins \<Rightarrow> exn \<Rightarrow> toast" where
  "submissionError b e =
     \<lparr> title = ''Submission Error'',
       description = (if message b e \<noteq> [] then message b e
                      else ''An unexpected error occurred''),
       variant = ''destructive'' \<rparr>"

definition catch :: "builtins \<Rightarrow> exn \<Rightarrow> app_state \<Rightarrow> app_state" where
  "catch b e st = showToast (submissionError b e) (st\<lparr>console_errors := console_errors st @ [e]\<rparr>)"

definition succeed :: "builtins \<Rightarrow> jsval \<Rightarrow> app_state \<Rightarrow> app_state" where
  \<comment> \<open>the success path after the checks: two writes, the redirect, the toast\<close>
  "succeed b results st =
     showToast success
       (navigate ''/resumes''
          (setItem ''keySkills''
             (JSON_stringify b (JArr (map JStr (split_comma (requiredSkills (formData st))))))
             (setItem ''resumeResults'' (JSON_stringify b results) st)))"

definition handleSubmit :: "builtins \<Rightarrow> (request \<Rightarrow> fetch_outcome) \<Rightarrow> app_state \<Rightarrow> app_state" where
  "handleSubmit b fetch st =
     (if jobTitle (formData st) = [] \<or> \<not> jobTypeTruthy (jobType (formData st))
         \<or> jobDescription (formData st) = []
      then showToast missingInformation st
      else if noFiles (resumeFiles (formData st)) then showToast missingResume st
      else
        (let req = buildRequest b st;
             sent = st\<lparr>requests := requests st @ [req]\<rparr>
         in case received b (fetch req) of
              Inl e \<Rightarrow> catch b e sent
            | Inr results \<Rightarrow> succeed b results sent))"

section \<open>Vocabulary of the properties\<close>

fun isString :: "jsval \<Rightarrow> bool" where
  "isString (JStr s) = True"
| "isString v = False"

fun str :: "jsval \<Rightarrow> string" where
  \<comment> \<open>the text of a string value\<close>
  "str (JStr s) = s"
| "str v = []"

definition fieldContains :: "jsval \<Rightarrow> string \<Rightarrow> bool" where
  \<comment> \<open>the field is text and its lower-cased form contains the query\<close>
  "fieldContains v q = (isString v \<and> includes_str (toLowerCase (str v)) q)"


fun texts :: "dom \<Rightarrow> string list" where
  \<comment> \<open>the data of the text nodes, in document order\<close>
  "texts (TextNode s) = [s]"
| "texts (Comment s) = []"
| "texts (Element n kids) = concat (map texts kids)"

definition digitsValue :: "string \<Rightarrow> nat" where
  \<comment> \<open>the number that a string of decimal digits denotes\<close>
  "digitsValue s = foldl (\<lambda>a c. 10 * a + (of_char c - 48)) 0 s"

text \<open>
  The stripped form of a job description as the specification words it: the tags are
  removed, and a space is appended inside each \<^verbatim>\<open>p\<close>, \<^verbatim>\<open>div\<close>, \<^verbatim>\<open>br\<close> and \<^verbatim>\<open>li\<close> element.
  \<open>textWith S\<close> is the same with the set of tags as a parameter.
\<close>

fun textWith :: "string set \<Rightarrow> dom \<Rightarrow> string" where
  "textWith S (TextNode s) = s"
| "textWith S (Comment s) = []"
| "textWith S (Element n kids) =
     concat (map (textWith S) kids) @ (if n \<in> S then '' '' else [])"

definition strippedText :: "dom list \<Rightarrow> string" where
  "strippedText kids = trim (concat (map (textWith {''p'', ''div'', ''br'', ''li''}) kids))"

definition validForm :: "form_data \<Rightarrow> bool" where
  \<comment> \<open>all required fields are non-empty and the list of uploaded files is not empty\<close>
  "validForm fd =
     (jobTitle fd \<noteq> [] \<and> jobType fd \<noteq> JobType [] \<and> jobDescription fd \<noteq> []
      \<and> resumeFiles fd \<noteq> NoFiles \<and> resumeFiles fd \<noteq> FileArray [])"

section \<open>Sample environment for the worked examples\<close>

text \<open>
  The examples below run the two views on concrete inputs. For that the built-in
  operations are given by finite excerpts: the JSON texts of the values that the examples
  store, the DOM forests of the job descriptions that they submit, and a percent-decoder
  for escape sequences that decode to a code unit below 256. On the inputs of the
  examples they return what the browser returns. No example converts a string, an array
  or an object to a number, converts a number, an array or an object to a string, or
  reads a property of \<^verbatim>\<open>null\<close>; the three operations for that are set to what they return
  for a plain object.
\<close>

definition ann :: jsval where
  "ann = JObj [(''name'', JStr ''Ann''), (''score'', JNum 8), (''email'', JStr ''ann@example.org'')]"

definition bob :: jsval where
  "bob = JObj [(''score'', JNum 3), (''email'', JStr ''xxx'')]"

definition cyd :: jsval where
  "cyd = JObj [(''name'', JStr ''Cyd'')]"

definition dan :: jsval where
  "dan = JObj [(''name'', JStr ''Dan''), (''score'', JNum 5), (''experience'', JNum 40)]"

definition eve :: jsval where
  "eve = JObj [(''name'', JNum 5), (''score'', JNum 8)]"


definition hiddenEnvelope :: jsval where
  "hiddenEnvelope = JObj [(''result'', JArr [ann, cyd, dan])]"

definition nullEnvelope :: jsval where
  "nullEnvelope = JObj [(''result'', JArr [ann, JNull])]"

definition numericNameEnvelope :: jsval where
  "numericNameEnvelope = JObj [(''result'', JArr [eve])]"

definition sampleCandidates :: jsval where
  "sampleCandidates = JArr [ann, bob]"

definition sampleEnvelope :: jsval where
  "sampleEnvelope =
     JObj [(''id'', JNum 7), (''exe_name'', JStr ''sql''), (''result'', sampleCandidates)]"

definition quote :: "string \<Rightarrow> string" where
  "quote s = CHR 0x22 # s @ [CHR 0x22]"

definition candidatesText :: string where
  "candidatesText =
     ''[{'' @ quote ''name'' @ '':'' @ quote ''Ann'' @ '','' @ quote ''score'' @ '':8,''
       @ quote ''email'' @ '':'' @ quote ''ann@example.org'' @ ''},{''
       @ quote ''score'' @ '':3,'' @ quote ''email'' @ '':'' @ quote ''xxx'' @ ''}]''"

definition annText :: string where
  "annText =
     ''{'' @ quote ''name'' @ '':'' @ quote ''Ann'' @ '','' @ quote ''score'' @ '':8,''
       @ quote ''email'' @ '':'' @ quote ''ann@example.org'' @ ''}''"

definition cydText :: string where
  "cydText = ''{'' @ quote ''name'' @ '':'' @ quote ''Cyd'' @ ''}''"

definition danText :: string where
  "danText =
     ''{'' @ quote ''name'' @ '':'' @ quote ''Dan'' @ '','' @ quote ''score'' @ '':5,''
       @ quote ''experience'' @ '':40}''"

definition eveText :: string where
  "eveText = ''{'' @ quote ''name'' @ '':5,'' @ quote ''score'' @ '':8}''"

definition sampleJSON :: "(jsval \<times> string) list" where
  "sampleJSON =
     [(sampleCandidates, candidatesText),
      (sampleEnvelope,
         ''{'' @ quote ''id'' @ '':7,'' @ quote ''exe_name'' @ '':'' @ quote ''sql'' @ '',''
           @ quote ''result'' @ '':'' @ candidatesText @ ''}''),
      (JArr [JStr ''sql''], ''['' @ quote ''sql'' @ '']''),
      (JArr [JStr []], ''['' @ quote [] @ '']''),
      (JArr [], ''[]''),
      (hiddenEnvelope,
         ''{'' @ quote ''result'' @ '':['' @ annText @ '','' @ cydText @ '','' @ danText @ '']}''),
      (nullEnvelope, ''{'' @ quote ''result'' @ '':['' @ annText @ '',null]}''),
      (numericNameEnvelope, ''{'' @ quote ''result'' @ '':['' @ eveText @ '']}''),
      (JArr [JStr ''sql'', JStr '' go'', JStr [], JStr []],
         ''['' @ quote ''sql'' @ '','' @ quote '' go'' @ '','' @ quote [] @ '','' @ quote [] @ '']'')]"

definition sampleHTML :: "(string \<times> dom list) list" where
  "sampleHTML =
     [(''<p></p>'', [Element ''p'' []]),
      (''<p>Build <b>APIs</b></p><ul><li>SQL</li><li>Go</li></ul>'',
         [Element ''p'' [TextNode ''Build '', Element ''b'' [TextNode ''APIs'']],
          Element ''ul'' [Element ''li'' [TextNode ''SQL''], Element ''li'' [TextNode ''Go'']]]),
      (''&lt;b&gt;Hi&lt;/b&gt;'', [TextNode ''<b>Hi</b>''])]"

definition hexDigit :: "char \<Rightarrow> nat option" where
  "hexDigit c =
     (let n = of_char c :: nat
      in if 48 \<le> n \<and> n \<le> 57 then Some (n - 48)
         else if 65 \<le> n \<and> n \<le> 70 then Some (n - 55)
         else if 97 \<le> n \<and> n \<le> 102 then Some (n - 87)
         else None)"

definition hexByte :: "char \<Rightarrow> char \<Rightarrow> nat option" where
  "hexByte h l =
     (case hexDigit h of
        None \<Rightarrow> None
      | Some a \<Rightarrow> (case hexDigit l of None \<Rightarrow> None | Some c \<Rightarrow> Some (16 * a + c)))"

fun percentDecode :: "string \<Rightarrow> string option" where
  \<comment> \<open>one-byte escapes, and the two-byte UTF-8 forms of the code points 128..255; any other
      escape is malformed or decodes to a code unit that is not modelled\<close>
  "percentDecode [] = Some []"
| "percentDecode (c # cs) =
     (if c \<noteq> CHR ''%'' then map_option (Cons c) (percentDecode cs)
      else case cs of
             h # l # rest \<Rightarrow>
               (case hexByte h l of
                  None \<Rightarrow> None
                | Some n \<Rightarrow>
                    if n < 128 then map_option (Cons (char_of n)) (percentDecode rest)
                    else if n = 194 \<or> n = 195 then
                      (case rest of
                         p # h2 # l2 # rest2 \<Rightarrow>
                           (case hexByte h2 l2 of
                              None \<Rightarrow> None
                            | Some m \<Rightarrow>
                                if p = CHR ''%'' \<and> 128 \<le> m \<and> m < 192
                                then map_option (Cons (char_of ((n - 192) * 64 + (m - 128))))
                                       (percentDecode rest2)
                                else None)
                       | _ \<Rightarrow> None)
                    else None)
           | _ \<Rightarrow> None)"

definition sample :: builtins where
  "sample =
     \<lparr> ToNumber = (\<lambda>v. NaN),
       ToString = (\<lambda>v. ''[object Object]''),
       JSON_stringify = (\<lambda>v. case map_of sampleJSON v of Some t \<Rightarrow> t | None \<Rightarrow> ''null''),
       JSON_parse = (\<lambda>t. map_of (map (\<lambda>(v, t). (t, v)) sampleJSON) t),
       decodeURIComponent = percentDecode,
       innerHTML = (\<lambda>s. case map_of sampleHTML s of Some d \<Rightarrow> d | None \<Rightarrow> [TextNode s]),
       typeErrorMessage = (\<lambda>k. ''Cannot read properties of null'') \<rparr>"

definition sampleForm :: form_data where
  "sampleForm =
     \<lparr> jobTitle = ''Engineer'', yearsOfExperience = ''3'', jobType = JobType ''fulltime'',
       industry = [], requiredSkills = ''sql'', jobDescription = ''<p></p>'',
       resumeFiles = FileArray [File ''ann.pdf''], source = [] \<rparr>"

definition sampleApp :: app_state where
  "sampleApp =
     \<lparr> formData = sampleForm, localStorage = Map.empty, navigations = [], toasts = [],
       requests = [], console_errors = [] \<rparr>"

definition respondWith :: "jsval \<Rightarrow> request \<Rightarrow> fetch_outcome" where
  \<comment> \<open>a server that answers 200 with the body \<^verbatim>\<open>{"data": {"result": v}}\<close>\<close>
  "respondWith v req = Responded 200 (Some (JObj [(''data'', JObj [(''result'', v)])]))"

definition offline :: "request \<Rightarrow> fetch_outcome" where
  "offline req = Rejected ''Failed to fetch''"

definition richApp :: app_state where
  "richApp =
     sampleApp\<lparr>formData := sampleForm
       \<lparr>jobDescription := ''<p>Build <b>APIs</b></p><ul><li>SQL</li><li>Go</li></ul>''\<rparr>\<rparr>"

definition untitledApp :: app_state where
  "untitledApp = sampleApp\<lparr>formData := sampleForm\<lparr>jobTitle := []\<rparr>\<rparr>"

definition unskilledApp :: app_state where
  "unskilledApp = sampleApp\<lparr>formData := sampleForm\<lparr>requiredSkills := []\<rparr>\<rparr>"

definition escapedApp :: app_state where
  "escapedApp =
     sampleApp\<lparr>formData := sampleForm\<lparr>jobDescription := ''&lt;b&gt;Hi&lt;/b&gt;''\<rparr>\<rparr>"

definition commaApp :: app_state where
  "commaApp = sampleApp\<lparr>formData := sampleForm\<lparr>requiredSkills := ''sql, go,,''\<rparr>\<rparr>"



definition sampleView :: list_state where
  "sampleView =
     initial_list_state
       \<lparr>resumes := [display sampleEnvelope 0 ann, display sampleEnvelope 1 bob],
        scoreRange := (5, 10)\<rparr>"

section \<open>Helper lemmas\<close>

subsection \<open>Arrays\<close>


lemma filter_js_subseq: "filter_js p xs = Inr ys \<Longrightarrow> subseq ys xs"
proof (induction xs arbitrary: ys)
  case Nil
  then show ?case by simp
next
  case (Cons x xs)
  then show ?case
    by (auto split: sum.splits if_splits)
qed

lemma filter_js_member:
  "filter_js p xs = Inr ys \<Longrightarrow> x \<in> set ys \<Longrightarrow> p x = Inr True"
proof (induction xs arbitrary: ys)
  case Nil
  then show ?case by simp
next
  case (Cons a xs)
  then show ?case
    by (auto split: sum.splits if_splits)
qed

lemma map_from_nth:
  "map_from f k xs = Inr ys \<Longrightarrow>
     length ys = length xs \<and> (\<forall>i < length xs. f (k + i) (xs ! i) = Inr (ys ! i))"
proof (induction xs arbitrary: k ys)
  case Nil
  then show ?case by simp
next
  case (Cons x xs)
  from Cons.prems obtain y ys' where
    y: "f k x = Inr y" and ys': "map_from f (Suc k) xs = Inr ys'" and ys: "ys = y # ys'"
    by (auto split: sum.splits)
  have ih: "length ys' = length xs"
    "\<And>i. i < length xs \<Longrightarrow> f (Suc k + i) (xs ! i) = Inr (ys' ! i)"
    using Cons.IH [OF ys'] by simp_all
  show ?case
  proof (intro conjI allI impI)
    show "length ys = length (x # xs)" by (simp add: ys ih)
  next
    fix i assume "i < length (x # xs)"
    then show "f (k + i) ((x # xs) ! i) = Inr (ys ! i)"
      using y ih(2) [of "i - 1"] by (cases i) (simp_all add: ys)
  qed
qed

lemma mapItem_Inr: "mapItem pr i item = Inr r \<Longrightarrow> r = display pr i item \<and> \<not> nullish item"
  by (auto simp: mapItem_def split: if_splits)

subsection \<open>Decimal notation\<close>

lemma digitsValue_snoc: "digitsValue (s @ [c]) = 10 * digitsValue s + (of_char c - 48)"
  by (simp add: digitsValue_def)

lemma decimal_value: "digitsValue (decimal n) = n"
proof (induction n rule: decimal.induct)
  case (1 n)
  show ?case
  proof (cases "n < 10")
    case True
    then show ?thesis
      by (subst decimal.simps) (simp add: digitsValue_def)
  next
    case False
    have "digitsValue (decimal n) = 10 * digitsValue (decimal (n div 10)) + n mod 10"
      using False by (subst decimal.simps) (simp add: digitsValue_snoc)
    then show ?thesis using "1.IH" False by simp
  qed
qed

lemma decimal_digits: "\<forall>c \<in> set (decimal n). 48 \<le> (of_char c :: nat) \<and> (of_char c :: nat) \<le> 57"
proof (induction n rule: decimal.induct)
  case (1 n)
  show ?case
  proof (cases "n < 10")
    case True
    then show ?thesis by (subst decimal.simps) simp
  next
    case False
    have "n mod 10 < 10" by simp
    then have "48 \<le> (of_char (char_of (48 + n mod 10) :: char) :: nat)
      \<and> (of_char (char_of (48 + n mod 10) :: char) :: nat) \<le> 57"
      by simp
    then show ?thesis using "1.IH" False by (subst decimal.simps) simp
  qed
qed

subsection \<open>Text search\<close>

lemma fieldContains_empty_field: "fieldContains (JStr []) q \<longleftrightarrow> q = []"
  by (simp add: fieldContains_def includes_str_def toLowerCase_def)









subsection \<open>The memoised filter is never stale\<close>

lemma keeps_cong:
  "scoreRange st = scoreRange st' \<Longrightarrow> experienceRange st = experienceRange st' \<Longrightarrow>
   filterEmail st = filterEmail st' \<Longrightarrow> filterPhone st = filterPhone st' \<Longrightarrow>
   searchQuery st = searchQuery st' \<Longrightarrow> keeps b st = keeps b st'"
  by (rule ext)
     (simp add: keeps_def inScoreRange_def inExperienceRange_def hasEmail_def hasPhone_def
        split: sum.splits)

lemma filteredResumes_cong:
  "depsOf st = depsOf st' \<Longrightarrow> searchQuery st = searchQuery st' \<Longrightarrow>
     filteredResumes b st = filteredResumes b st'"
  unfolding filteredResumes_def depsOf_def
  using keeps_cong [of st st' b] by simp

lemma searchQuery_setResumesFrom: "searchQuery (setResumesFrom parsed st) = searchQuery st"
  by (simp add: setResumesFrom_def split: jsval.splits sum.splits)

lemma searchQuery_loadStored: "searchQuery (loadStored b ls st) = searchQuery st"
  by (simp add: loadStored_def Let_def searchQuery_setResumesFrom split: option.splits)

lemma searchQuery_handle: "searchQuery (handle e st) = searchQuery st"
  by (cases e) simp_all

lemma fresh_rerender:
  "fresh b r \<Longrightarrow> searchQuery st = [] \<Longrightarrow> fresh b (rerender b st r)"
  unfolding fresh_def rerender_def
  using filteredResumes_cong [of st "current r" b] by simp

lemma fresh_mount: "fresh b (mount b ls)"
  unfolding mount_def
  by (rule fresh_rerender)
     (simp_all add: fresh_def firstRender_def searchQuery_loadStored initial_list_state_def)

lemma fresh_dispatch: "fresh b r \<Longrightarrow> fresh b (dispatch b e r)"
  unfolding dispatch_def
  by (rule fresh_rerender) (simp_all add: searchQuery_handle fresh_def)

lemma memo_always_fresh: "fresh b (fold (dispatch b) es (mount b ls))"
proof (induction es rule: rev_induct)
  case Nil
  show ?case by (simp add: fresh_mount)
next
  case (snoc e es)
  then show ?case by (simp add: fresh_dispatch)
qed





subsection \<open>Validation\<close>

lemma jobTypeTruthy_iff: "jobTypeTruthy v \<longleftrightarrow> v \<noteq> JobType []"
  by (cases v) simp_all

lemma noFiles_iff: "noFiles fs \<longleftrightarrow> fs = NoFiles \<or> fs = FileArray []"
  by (cases fs) (simp_all add: noFiles_def)

lemma handleSubmit_invalid:
  "\<not> validForm (formData st) \<Longrightarrow>
     handleSubmit b fetch st = showToast missingInformation st
     \<or> handleSubmit b fetch st = showToast missingResume st"
  by (auto simp: handleSubmit_def validForm_def jobTypeTruthy_iff noFiles_iff)

lemma handleSubmit_valid:
  "validForm (formData st) \<Longrightarrow>
     handleSubmit b fetch st =
       (case received b (fetch (buildRequest b st)) of
          Inl e \<Rightarrow> catch b e (st\<lparr>requests := requests st @ [buildRequest b st]\<rparr>)
        | Inr results \<Rightarrow> succeed b results (st\<lparr>requests := requests st @ [buildRequest b st]\<rparr>))"
  by (simp add: handleSubmit_def validForm_def jobTypeTruthy_iff noFiles_iff Let_def)

lemma requests_catch: "requests (catch b e st) = requests st"
  by (simp add: catch_def showToast_def)

lemma requests_succeed: "requests (succeed b v st) = requests st"
  by (simp add: succeed_def showToast_def navigate_def setItem_def)

lemma received_failure:
  assumes "outcome = Rejected m \<or> outcome = Responded status None
           \<or> (outcome = Responded status (Some result) \<and> \<not> ok status)"
  shows "\<exists>e. received b outcome = Inl e"
  using assms by (auto simp: received_def)

subsection \<open>The passes of stripHtml\<close>

lemma textWith_appendSpace:
  "tag \<notin> S \<Longrightarrow> textWith S (appendSpace tag d) = textWith (insert tag S) d"
  by (induction tag d rule: appendSpace.induct)
     (auto simp: map_concat intro: arg_cong [where f = concat])

lemma textWith_passes:
  "distinct tags \<Longrightarrow> set tags \<inter> S = {} \<Longrightarrow>
     concat (map (textWith S) (fold (\<lambda>tag. map (appendSpace tag)) tags kids))
       = concat (map (textWith (S \<union> set tags)) kids)"
proof (induction tags arbitrary: kids)
  case Nil
  then show ?case by simp
next
  case (Cons t ts)
  have notin: "t \<notin> S \<union> set ts" using Cons.prems by auto
  have "concat (map (textWith S) (fold (\<lambda>tag. map (appendSpace tag)) (t # ts) kids))
      = concat (map (textWith (S \<union> set ts)) (map (appendSpace t) kids))"
    using Cons.IH [of "map (appendSpace t) kids"] Cons.prems by simp
  also have "\<dots> = concat (map (textWith (insert t (S \<union> set ts))) kids)"
    by (simp add: textWith_appendSpace [OF notin] comp_def)
  finally show ?case by simp
qed

lemma textContent_textWith: "textContent d = textWith {} d"
  by (induction d) (auto intro: arg_cong [where f = concat])

lemma stripHtml_strippedText: "stripHtml b html = strippedText (innerHTML b html)"
proof -
  have pick: "(if tc \<noteq> [] then tc else if tc \<noteq> [] then tc else []) = tc" for tc :: string
    by simp
  have passes: "concat (map textContent (fold (\<lambda>tag. map (appendSpace tag)) blockTags kids))
      = concat (map (textWith {''p'', ''div'', ''br'', ''li''}) kids)" for kids
  proof -
    have "map textContent = map (textWith {})"
      by (simp add: textContent_textWith [abs_def])
    moreover have "distinct blockTags" "set blockTags = {''p'', ''div'', ''br'', ''li''}"
      by (simp_all add: blockTags_def)
    ultimately show ?thesis
      using textWith_passes [of blockTags "{}" kids] by simp
  qed
  show ?thesis
    unfolding stripHtml_def strippedText_def innerText_def Let_def pick passes ..
qed

lemma set_trim: "set (trim s) \<subseteq> set s"
proof -
  have "set (dropWhile p xs) \<subseteq> set xs" for p and xs :: string
    by (simp add: set_dropWhileD subsetI)
  then show ?thesis
    unfolding trim_def by (metis set_rev subset_trans)
qed

lemma set_textWith:
  "c \<in> set (textWith S d) \<Longrightarrow> c = CHR '' '' \<or> (\<exists>t \<in> set (texts d). c \<in> set t)"
  by (induction S d rule: textWith.induct) (auto split: if_splits)

lemma set_strippedText:
  "c \<in> set (strippedText kids) \<Longrightarrow>
     c = CHR '' '' \<or> (\<exists>t \<in> set (concat (map texts kids)). c \<in> set t)"
proof -
  assume "c \<in> set (strippedText kids)"
  then have "c \<in> set (concat (map (textWith {''p'', ''div'', ''br'', ''li''}) kids))"
    unfolding strippedText_def using set_trim by blast
  then obtain d where "d \<in> set kids" "c \<in> set (textWith {''p'', ''div'', ''br'', ''li''} d)"
    by auto
  then show ?thesis
    using set_textWith by fastforce
qed

subsection \<open>Splitting at commas\<close>

lemma split_comma_nonempty: "split_comma s \<noteq> []"
  by (induction s) (auto split: list.splits)

lemma join_split_comma: "join_comma (split_comma s) = s"
proof (induction s)
  case Nil
  then show ?case by simp
next
  case (Cons c cs)
  obtain w ws where ws: "split_comma cs = w # ws"
    using split_comma_nonempty [of cs] by (cases "split_comma cs") auto
  show ?case
    using Cons.IH by (cases ws) (auto simp: ws)
qed

lemma split_comma_no_comma: "\<forall>w \<in> set (split_comma s). CHR '','' \<notin> set w"
proof (induction s)
  case Nil
  show ?case by simp
next
  case (Cons c cs)
  obtain w ws where ws: "split_comma cs = w # ws"
    using split_comma_nonempty [of cs] by (cases "split_comma cs") auto
  show ?case using Cons.IH by (auto simp: ws)
qed

lemma length_split_comma: "length (split_comma s) = Suc (count_list s (CHR '',''))"
proof (induction s)
  case Nil
  show ?case by simp
next
  case (Cons c cs)
  obtain w ws where ws: "split_comma cs = w # ws"
    using split_comma_nonempty [of cs] by (cases "split_comma cs") auto
  show ?case using Cons.IH by (auto simp: ws)
qed

subsection \<open>Storage round trip\<close>


lemma dataResult_truthy: "dataResult result = Inr written \<Longrightarrow> truthy written"
  by (auto simp: dataResult_def or_else_def split: sum.splits if_splits)


lemma handleSubmit_success:
  assumes "validForm (formData st)"
    and "fetch (buildRequest b st) = Responded status (Some result)" and "ok status"
    and "dataResult result = Inr written"
  shows "handleSubmit b fetch st =
           succeed b written (st\<lparr>requests := requests st @ [buildRequest b st]\<rparr>)"
  using assms by (simp add: handleSubmit_valid received_def)

lemma localStorage_succeed:
  "localStorage (succeed b written st) =
     (localStorage st)
       (''resumeResults'' \<mapsto> JSON_stringify b written,
        ''keySkills'' \<mapsto>
           JSON_stringify b (JArr (map JStr (split_comma (requiredSkills (formData st))))))"
  by (simp add: succeed_def showToast_def navigate_def setItem_def)

lemma navigations_succeed:
  "navigations (succeed b written st) = navigations st @ [''/resumes'']"
  by (simp add: succeed_def showToast_def navigate_def setItem_def)

lemma userKeySkills_setResumesFrom:
  "userKeySkills (setResumesFrom parsed st) = userKeySkills st"
  by (simp add: setResumesFrom_def split: jsval.splits sum.splits)

lemma resumes_setResumesFrom:
  "truthy parsed \<Longrightarrow>
     resumes (setResumesFrom parsed st) =
       (case own parsed ''result'' of
          JArr items \<Rightarrow>
            (case map_from (mapItem parsed) 0 items of
               Inl e \<Rightarrow> resumes st
             | Inr mapped \<Rightarrow> mapped)
        | _ \<Rightarrow> resumes st)"
  by (simp add: setResumesFrom_def split: jsval.splits sum.splits)

lemma parseStored_roundtrip:
  "JSON_stringify b v \<noteq> [] \<Longrightarrow> JSON_parse b (JSON_stringify b v) = Some v \<Longrightarrow>
     parseStored b (Some (JSON_stringify b v)) dflt = Some v"
  by (simp add: parseStored_def)

lemma loadStored_skills:
  assumes "getItem ls ''keySkills'' = Some (JSON_stringify b (JArr skills))"
    and "JSON_stringify b (JArr skills) \<noteq> []"
    and "JSON_parse b (JSON_stringify b (JArr skills)) = Some (JArr skills)"
  shows "userKeySkills (loadStored b ls st) = skills"
  using assms
  by (simp add: loadStored_def parseStored_roundtrip userKeySkills_setResumesFrom Let_def
      split: option.splits)

lemma loadStored_resumes:
  assumes "getItem ls ''keySkills'' = Some (JSON_stringify b (JArr skills))"
    and "JSON_stringify b (JArr skills) \<noteq> []"
    and "JSON_parse b (JSON_stringify b (JArr skills)) = Some (JArr skills)"
    and "getItem ls ''resumeResults'' = Some (JSON_stringify b written)"
    and "JSON_stringify b written \<noteq> []"
    and "JSON_parse b (JSON_stringify b written) = Some written"
  shows "loadStored b ls st =
           setResumesFrom written (st\<lparr>userKeySkills := skills\<rparr>)"
  using assms by (simp add: loadStored_def parseStored_roundtrip Let_def)


lemma resumes_after_submission:
  assumes "validForm (formData st)"
    and "fetch (buildRequest b st) = Responded status (Some result)" and "ok status"
    and "dataResult result = Inr written"
    and "JSON_stringify b written \<noteq> []"
    and "JSON_parse b (JSON_stringify b written) = Some written"
    and "JSON_stringify b (JArr (map JStr (split_comma (requiredSkills (formData st))))) \<noteq> []"
    and "JSON_parse b
           (JSON_stringify b (JArr (map JStr (split_comma (requiredSkills (formData st))))))
         = Some (JArr (map JStr (split_comma (requiredSkills (formData st)))))"
  shows "resumes (loadStored b (localStorage (handleSubmit b fetch st)) initial_list_state)
       = (case own written ''result'' of
            JArr items \<Rightarrow>
              (case map_from (mapItem written) 0 items of Inl e \<Rightarrow> [] | Inr mapped \<Rightarrow> mapped)
          | _ \<Rightarrow> [])"
proof -
  let ?sent = "st\<lparr>requests := requests st @ [buildRequest b st]\<rparr>"
  let ?store = "localStorage (handleSubmit b fetch st)"
  have h: "handleSubmit b fetch st = succeed b written ?sent"
    using assms(1-4) by (rule handleSubmit_success)
  have w: "?store ''resumeResults'' = Some (JSON_stringify b written)"
    and k: "?store ''keySkills'' =
         Some (JSON_stringify b (JArr (map JStr (split_comma (requiredSkills (formData st))))))"
    by (simp_all add: h localStorage_succeed)
  have t: "truthy written" using assms(4) by (rule dataResult_truthy)
  have load: "loadStored b ?store initial_list_state =
      setResumesFrom written
        (initial_list_state\<lparr>userKeySkills := map JStr (split_comma (requiredSkills (formData st)))\<rparr>)"
    using k assms(7,8) w assms(5,6) by (intro loadStored_resumes) (simp_all add: getItem_def)
  show ?thesis
    unfolding load
    by (simp add: resumes_setResumesFrom [OF t] initial_list_state_def
        split: jsval.splits sum.splits)
qed

text \<open>A cached value that is itself an array has no \<^verbatim>\<open>result\<close> property: nothing is loaded.\<close>

lemma bare_list_ignored:
  assumes "validForm (formData st)"
    and "fetch (buildRequest b st) = Responded status (Some result)" and "ok status"
    and "dataResult result = Inr (JArr L)"
    and "JSON_stringify b (JArr L) \<noteq> []"
    and "JSON_parse b (JSON_stringify b (JArr L)) = Some (JArr L)"
    and "JSON_stringify b (JArr (map JStr (split_comma (requiredSkills (formData st))))) \<noteq> []"
    and "JSON_parse b
           (JSON_stringify b (JArr (map JStr (split_comma (requiredSkills (formData st))))))
         = Some (JArr (map JStr (split_comma (requiredSkills (formData st)))))"
  shows "resumes (loadStored b (localStorage (handleSubmit b fetch st)) initial_list_state) = []"
  using resumes_after_submission [where fetch = fetch and b = b and st = st, OF assms] by simp

subsection \<open>The job type lookup\<close>

text \<open>
  Where the lookup behaves as a plain table: a label that is not the name of a property of
  \<^verbatim>\<open>Object.prototype\<close> derives one of the five job types when it is one of the five
  labels, and the empty string otherwise.
\<close>

lemma mappedJobType_own:
  assumes "trim (decodeSafe b (param params ''jobtype'')) \<notin> set objectPrototypeKeys"
  shows "mappedJobType b params =
           (case map_of jobTypeMap (trim (decodeSafe b (param params ''jobtype''))) of
              Some v \<Rightarrow> JobType v | None \<Rightarrow> JobType [])"
  using assms
  by (auto simp: mappedJobType_def lookupJobType_def Let_def jobTypeMap_def
      split: option.splits if_splits)

section \<open>The claims\<close>

subsection \<open>C1: the cached list and the list the results view reads back\<close>




subsection \<open>C2: the four filter predicates\<close>




subsection \<open>C3: validation before the request\<close>

text \<open>
  C3: when the job title, the job type or the job description is empty, or the list of
  uploaded files is empty, submitting shows one destructive toast and does nothing else:
  no request, no write to local storage, no navigation. When all required fields are
  filled in and a file is uploaded, exactly one request, the one built from the form, is
  sent.
\<close>

theorem validation_gates_request:
  "(\<not> validForm (formData st) \<longrightarrow>
      (\<exists>t. handleSubmit b fetch st = showToast t st \<and> variant t = ''destructive'')
      \<and> requests (handleSubmit b fetch st) = requests st
      \<and> localStorage (handleSubmit b fetch st) = localStorage st
      \<and> navigations (handleSubmit b fetch st) = navigations st)
   \<and> (validForm (formData st) \<longrightarrow>
      requests (handleSubmit b fetch st) = requests st @ [buildRequest b st])"
proof (intro conjI impI)
  assume inv: "\<not> validForm (formData st)"
  from handleSubmit_invalid [OF inv, of b fetch]
  show "\<exists>t. handleSubmit b fetch st = showToast t st \<and> variant t = ''destructive''"
    by (auto simp: missingInformation_def missingResume_def)
  from handleSubmit_invalid [OF inv, of b fetch]
  show "requests (handleSubmit b fetch st) = requests st"
    "localStorage (handleSubmit b fetch st) = localStorage st"
    "navigations (handleSubmit b fetch st) = navigations st"
    by (auto simp: showToast_def)
next
  assume "validForm (formData st)"
  then show "requests (handleSubmit b fetch st) = requests st @ [buildRequest b st]"
    by (simp add: handleSubmit_valid requests_catch requests_succeed split: sum.splits)
qed

theorem validation_gates_request_witness:
  "\<not> validForm (formData untitledApp)
   \<and> requests (handleSubmit sample (respondWith sampleEnvelope) untitledApp) = []
   \<and> localStorage (handleSubmit sample (respondWith sampleEnvelope) untitledApp) = Map.empty
   \<and> navigations (handleSubmit sample (respondWith sampleEnvelope) untitledApp) = []
   \<and> validForm (formData sampleApp)
   \<and> requests (handleSubmit sample (respondWith sampleEnvelope) sampleApp)
       = [buildRequest sample sampleApp]"
proof -
  have invalid: "\<not> validForm (formData untitledApp)" by code_simp
  have valid: "validForm (formData sampleApp)" by code_simp
  have before: "requests untitledApp = []" "localStorage untitledApp = Map.empty"
    "navigations untitledApp = []" "requests sampleApp = []"
    by (simp_all add: untitledApp_def sampleApp_def)
  show ?thesis
    using validation_gates_request [of untitledApp sample "respondWith sampleEnvelope"]
      validation_gates_request [of sampleApp sample "respondWith sampleEnvelope"]
      invalid valid
    by (simp add: before)
qed

subsection \<open>C4: a failed submission leaves the observable state alone\<close>

text \<open>
  C4: when the fetch call throws, the response body is not JSON, or the response status
  is not ok, local storage (the entries \<^verbatim>\<open>resumeResults\<close> and \<^verbatim>\<open>keySkills\<close> with it) is
  unchanged and no navigation occurs; for a form that passed validation the submission
  ends in the catch branch, whose toast, the last one shown, is the destructive
  "Submission Error" toast.
\<close>

theorem failed_submission_changes_nothing:
  assumes "fetch (buildRequest b st) = Rejected m
           \<or> fetch (buildRequest b st) = Responded status None
           \<or> (fetch (buildRequest b st) = Responded status (Some result) \<and> \<not> ok status)"
  shows "localStorage (handleSubmit b fetch st) = localStorage st
       \<and> navigations (handleSubmit b fetch st) = navigations st
       \<and> (validForm (formData st) \<longrightarrow>
            (\<exists>e. handleSubmit b fetch st =
                    catch b e (st\<lparr>requests := requests st @ [buildRequest b st]\<rparr>)
                \<and> last (toasts (handleSubmit b fetch st)) = submissionError b e
                \<and> variant (submissionError b e) = ''destructive''))"
proof (cases "validForm (formData st)")
  case False
  from handleSubmit_invalid [OF False, of b fetch] False
  show ?thesis by (auto simp: showToast_def)
next
  case True
  from received_failure [OF assms] obtain e
    where e: "received b (fetch (buildRequest b st)) = Inl e" ..
  have h: "handleSubmit b fetch st =
          catch b e (st\<lparr>requests := requests st @ [buildRequest b st]\<rparr>)"
    by (simp add: handleSubmit_valid [OF True] e)
  show ?thesis
    unfolding h by (auto simp: catch_def showToast_def submissionError_def)
qed

theorem failed_submission_changes_nothing_witness:
  "offline (buildRequest sample sampleApp) = Rejected ''Failed to fetch''
   \<and> validForm (formData sampleApp)
   \<and> localStorage (handleSubmit sample offline sampleApp) = localStorage sampleApp
   \<and> navigations (handleSubmit sample offline sampleApp) = navigations sampleApp
   \<and> title (last (toasts (handleSubmit sample offline sampleApp))) = ''Submission Error''
   \<and> variant (last (toasts (handleSubmit sample offline sampleApp))) = ''destructive''"
proof -
  have rejected: "offline (buildRequest sample sampleApp) = Rejected ''Failed to fetch''"
    by (simp add: offline_def)
  have valid: "validForm (formData sampleApp)" by code_simp
  have failed: "offline (buildRequest sample sampleApp) = Rejected ''Failed to fetch''
      \<or> offline (buildRequest sample sampleApp) = Responded 0 None
      \<or> (offline (buildRequest sample sampleApp) = Responded 0 (Some JNull) \<and> \<not> ok 0)"
    using rejected by simp
  from failed_submission_changes_nothing
    [where fetch = offline and b = sample and st = sampleApp and m = "''Failed to fetch''"
       and status = 0 and result = JNull, OF failed] valid rejected
  show ?thesis
    by (auto simp: submissionError_def)
qed

subsection \<open>C5: defaults for absent fields\<close>

text \<open>
  C5: in the mapped list, the candidate at position \<open>i\<close> (0-based) of the upstream array
  gets, for each field that is absent from its element: the name "Candidate N" with
  \<open>N = i + 1\<close>, the score 0, the empty justification, the experience 0 (also when the
  field is present but not a number), the email "No email" and the phone "No phone".
\<close>

theorem absent_fields_defaulted:
  assumes "map_from (mapItem parsedResumes) 0 items = Inr mapped" and "i < length items"
  shows "length mapped = length items
    \<and> (own (items ! i) ''name'' = JUndefined
         \<longrightarrow> name (mapped ! i) = JStr (''Candidate '' @ decimal (i + 1)))
    \<and> (own (items ! i) ''score'' = JUndefined \<longrightarrow> Rank (mapped ! i) = JNum 0)
    \<and> (own (items ! i) ''justification'' = JUndefined
         \<longrightarrow> justification (mapped ! i) = JStr [])
    \<and> ((\<forall>x. own (items ! i) ''experience'' \<noteq> JNum x) \<longrightarrow> experience (mapped ! i) = 0)
    \<and> (own (items ! i) ''email'' = JUndefined \<longrightarrow> email (mapped ! i) = JStr ''No email'')
    \<and> (own (items ! i) ''phone'' = JUndefined \<longrightarrow> phone (mapped ! i) = JStr ''No phone'')"
proof -
  from map_from_nth [OF assms(1)] assms(2)
  have len: "length mapped = length items"
    and "mapItem parsedResumes i (items ! i) = Inr (mapped ! i)"
    by simp_all
  then have r: "mapped ! i = display parsedResumes i (items ! i)"
    using mapItem_Inr by blast
  have "experience (mapped ! i) = 0" if "\<forall>x. own (items ! i) ''experience'' \<noteq> JNum x"
    using that unfolding r display_def by (cases "own (items ! i) ''experience''") simp_all
  then show ?thesis
    using len by (simp add: r display_def or_else_def)
qed

theorem absent_fields_defaulted_witness:
  "map_from (mapItem sampleEnvelope) 0 [ann, bob]
     = Inr [display sampleEnvelope 0 ann, display sampleEnvelope 1 bob]
   \<and> own bob ''name'' = JUndefined
   \<and> name (display sampleEnvelope 1 bob) = JStr ''Candidate 2''
   \<and> justification (display sampleEnvelope 1 bob) = JStr []
   \<and> experience (display sampleEnvelope 1 bob) = 0
   \<and> phone (display sampleEnvelope 1 bob) = JStr ''No phone''"
proof -
  have mapped: "map_from (mapItem sampleEnvelope) 0 [ann, bob]
     = Inr [display sampleEnvelope 0 ann, display sampleEnvelope 1 bob]"
    by code_simp
  have absent: "own ([ann, bob] ! 1) ''name'' = JUndefined"
    "own ([ann, bob] ! 1) ''justification'' = JUndefined"
    "\<forall>x. own ([ann, bob] ! 1) ''experience'' \<noteq> JNum x"
    "own ([ann, bob] ! 1) ''phone'' = JUndefined"
    by (simp_all add: bob_def)
  have two: "''Candidate '' @ decimal (1 + 1) = ''Candidate 2''" by code_simp
  have "(1::nat) < length [ann, bob]" by simp
  from absent_fields_defaulted [OF mapped this] absent
  show ?thesis
    using mapped two by simp
qed

subsection \<open>C6: the job description that is sent\<close>

text \<open>
  C6 as stated fails in two ways. (1) For a job description whose stripped form is empty:
  the form with the description \<^verbatim>\<open><p></p>\<close> passes validation, its stripped form is the
  empty string, and the payload carries the text "No description" instead. (2) The text
  sent can contain markup: the description \<^verbatim>\<open>&lt;b&gt;Hi&lt;/b&gt;\<close> is parsed to the one
  text node \<^verbatim>\<open><b>Hi</b>\<close>, and that text is sent.
\<close>

theorem empty_description_counterexample:
  "validForm (formData sampleApp)
   \<and> jobDescription (formData sampleApp) = ''<p></p>''
   \<and> stripHtml sample (jobDescription (formData sampleApp)) = []
   \<and> job_description (data (buildRequest sample sampleApp)) = ''No description''
   \<and> validForm (formData escapedApp)
   \<and> jobDescription (formData escapedApp) = ''&lt;b&gt;Hi&lt;/b&gt;''
   \<and> innerHTML sample (jobDescription (formData escapedApp)) = [TextNode ''<b>Hi</b>'']
   \<and> job_description (data (buildRequest sample escapedApp)) = ''<b>Hi</b>''"
  by code_simp

text \<open>
  C6, amended: the \<^verbatim>\<open>job_description\<close> field of the outbound payload is the stripped
  form of the entered job description when that form is not empty, and the text
  "No description" when it is empty. The stripped form is the text of the parsed
  description with the tags removed and a space appended inside each \<^verbatim>\<open>p\<close>, \<^verbatim>\<open>div\<close>,
  \<^verbatim>\<open>br\<close> and \<^verbatim>\<open>li\<close> element, trimmed; so the text sent contains an angle bracket only
  where a text node of the parsed description contains it.
\<close>

theorem job_description_stripped_or_default:
  "job_description (data (buildRequest b st)) =
     (if strippedText (innerHTML b (jobDescription (formData st))) \<noteq> []
      then strippedText (innerHTML b (jobDescription (formData st)))
      else ''No description'')
   \<and> (\<forall>c \<in> {CHR ''<'', CHR ''>''}.
         c \<in> set (job_description (data (buildRequest b st))) \<longrightarrow>
         (\<exists>t \<in> set (concat (map texts (innerHTML b (jobDescription (formData st))))).
            c \<in> set t))"
proof -
  have eq: "job_description (data (buildRequest b st)) =
     (if strippedText (innerHTML b (jobDescription (formData st))) \<noteq> []
      then strippedText (innerHTML b (jobDescription (formData st)))
      else ''No description'')"
    by (simp add: buildRequest_def jobPayload_def stripHtml_strippedText Let_def)
  have "\<exists>t \<in> set (concat (map texts (innerHTML b (jobDescription (formData st))))). c \<in> set t"
    if "c \<in> {CHR ''<'', CHR ''>''}" "c \<in> set (job_description (data (buildRequest b st)))"
    for c
  proof (cases "strippedText (innerHTML b (jobDescription (formData st))) = []")
    case True
    then show ?thesis using that unfolding eq by auto
  next
    case False
    then have "c \<in> set (strippedText (innerHTML b (jobDescription (formData st))))"
      using that(2) unfolding eq by simp
    from set_strippedText [OF this] that(1) show ?thesis by auto
  qed
  with eq show ?thesis by blast
qed

theorem job_description_stripped_or_default_witness:
  "strippedText (innerHTML sample (jobDescription (formData richApp))) = ''Build APIs SQL Go''
   \<and> job_description (data (buildRequest sample richApp)) = ''Build APIs SQL Go''
   \<and> CHR ''<'' \<in> set (job_description (data (buildRequest sample escapedApp)))
   \<and> list_ex (\<lambda>t. CHR ''<'' \<in> set t)
        (concat (map texts (innerHTML sample (jobDescription (formData escapedApp)))))"
proof -
  have stripped:
    "strippedText (innerHTML sample (jobDescription (formData richApp))) = ''Build APIs SQL Go''"
    by code_simp
  have sent: "job_description (data (buildRequest sample richApp)) = ''Build APIs SQL Go''"
    using job_description_stripped_or_default [of sample richApp] unfolding stripped by simp
  have angle: "CHR ''<'' \<in> set (job_description (data (buildRequest sample escapedApp)))"
    by code_simp
  have "\<exists>t \<in> set (concat (map texts (innerHTML sample (jobDescription (formData escapedApp))))).
      CHR ''<'' \<in> set t"
    using job_description_stripped_or_default [of sample escapedApp] angle by blast
  then show ?thesis
    using stripped sent angle by (simp add: list_ex_iff)
qed

subsection \<open>C7: the job type derived from the URL\<close>

text \<open>
  C7 at the query \<^verbatim>\<open>?jobtype=constructor\<close>: the lookup \<^verbatim>\<open>jobTypeMap[jobTypeLabel]\<close> finds
  the inherited \<^verbatim>\<open>constructor\<close>, which is truthy, so the job type put into the form state
  is that function: neither one of the five job types nor the empty string. The
  required-field check of \<^verbatim>\<open>handleSubmit\<close> then takes the job type for filled in.
\<close>

theorem inherited_key_becomes_job_type:
  "mappedJobType sample [''jobtype'' \<mapsto> ''constructor''] = Inherited ''constructor''
   \<and> jobTypeTruthy (mappedJobType sample [''jobtype'' \<mapsto> ''constructor''])"
  by (simp add: mappedJobType_def param_def decodeSafe_def sample_def trim_def is_space_def
      lookupJobType_def jobTypeMap_def objectPrototypeKeys_def)

subsection \<open>C8: the placeholder "xxx"\<close>

text \<open>
  C8: a candidate whose upstream email (phone) is the literal string "xxx" is cached with
  the email "No email" (the phone "No phone"), the value a candidate without the field
  gets, and it is in no filtered view computed with the email (phone) toggle on.
\<close>

theorem placeholder_contact_excluded:
  assumes "mapItem parsedResumes i item = Inr r"
  shows "(own item ''email'' = JStr ''xxx'' \<longrightarrow>
            email r = JStr ''No email''
          \<and> (\<forall>absent. \<not> nullish absent \<and> own absent ''email'' = JUndefined
                \<longrightarrow> (\<exists>r'. mapItem parsedResumes i absent = Inr r' \<and> email r' = email r))
          \<and> (\<forall>st view. filterEmail st \<and> filteredResumes b st = Inr view \<longrightarrow> r \<notin> set view))
       \<and> (own item ''phone'' = JStr ''xxx'' \<longrightarrow>
            phone r = JStr ''No phone''
          \<and> (\<forall>absent. \<not> nullish absent \<and> own absent ''phone'' = JUndefined
                \<longrightarrow> (\<exists>r'. mapItem parsedResumes i absent = Inr r' \<and> phone r' = phone r))
          \<and> (\<forall>st view. filterPhone st \<and> filteredResumes b st = Inr view \<longrightarrow> r \<notin> set view))"
proof -
  have r: "r = display parsedResumes i item" and pr: "\<not> nullish parsedResumes"
    using assms by (auto simp: mapItem_def split: if_splits)
  have hidden_e: "r \<notin> set view"
    if "email r = JStr ''No email''" "filterEmail st" "filteredResumes b st = Inr view"
    for st view
  proof
    assume "r \<in> set view"
    with that(3) have "keeps b st r = Inr True"
      unfolding filteredResumes_def by (rule filter_js_member)
    with that(1,2) show False
      by (auto simp: keeps_def hasEmail_def split: sum.splits)
  qed
  have hidden_p: "r \<notin> set view"
    if "phone r = JStr ''No phone''" "filterPhone st" "filteredResumes b st = Inr view"
    for st view
  proof
    assume "r \<in> set view"
    with that(3) have "keeps b st r = Inr True"
      unfolding filteredResumes_def by (rule filter_js_member)
    with that(1,2) show False
      by (auto simp: keeps_def hasPhone_def split: sum.splits)
  qed
  have e: "email r = JStr ''No email''" if "own item ''email'' = JStr ''xxx''"
    using that by (simp add: r display_def)
  have p: "phone r = JStr ''No phone''" if "own item ''phone'' = JStr ''xxx''"
    using that by (simp add: r display_def)
  have ae: "\<exists>r'. mapItem parsedResumes i absent = Inr r' \<and> email r' = JStr ''No email''"
    if "\<not> nullish absent" "own absent ''email'' = JUndefined" for absent
    using that pr by (simp add: mapItem_def display_def)
  have ap: "\<exists>r'. mapItem parsedResumes i absent = Inr r' \<and> phone r' = JStr ''No phone''"
    if "\<not> nullish absent" "own absent ''phone'' = JUndefined" for absent
    using that pr by (simp add: mapItem_def display_def)
  show ?thesis
    using e p ae ap hidden_e hidden_p by metis
qed

theorem placeholder_contact_excluded_witness:
  "mapItem sampleEnvelope 1 bob = Inr (display sampleEnvelope 1 bob)
   \<and> own bob ''email'' = JStr ''xxx''
   \<and> email (display sampleEnvelope 1 bob) = JStr ''No email''
   \<and> filteredResumes sample (sampleView\<lparr>scoreRange := (1, 10), filterEmail := True\<rparr>)
       = Inr [display sampleEnvelope 0 ann]
   \<and> display sampleEnvelope 1 bob \<notin> set [display sampleEnvelope 0 ann]"
proof -
  have mapped: "mapItem sampleEnvelope 1 bob = Inr (display sampleEnvelope 1 bob)"
    by code_simp
  have xxx: "own bob ''email'' = JStr ''xxx''" by code_simp
  have on: "filterEmail (sampleView\<lparr>scoreRange := (1, 10), filterEmail := True\<rparr>)"
    by simp
  have view: "filteredResumes sample (sampleView\<lparr>scoreRange := (1, 10), filterEmail := True\<rparr>)
       = Inr [display sampleEnvelope 0 ann]"
    by code_simp
  from placeholder_contact_excluded [OF mapped, of sample] xxx on view
  show ?thesis
    using mapped by blast
qed

subsection \<open>C9: the filtered view keeps the order\<close>

text \<open>
  C9: a filtered view is a subsequence of the cached list: the candidates that pass the
  filters, in the order of the cached list.
\<close>

theorem filtered_view_subseq:
  "filteredResumes b st = Inr view \<Longrightarrow> subseq view (resumes st)"
  unfolding filteredResumes_def by (rule filter_js_subseq)

theorem filtered_view_subseq_witness:
  "filteredResumes sample (sampleView\<lparr>scoreRange := (1, 10)\<rparr>)
     = Inr [display sampleEnvelope 0 ann, display sampleEnvelope 1 bob]
   \<and> subseq [display sampleEnvelope 0 ann, display sampleEnvelope 1 bob]
        (resumes (sampleView\<lparr>scoreRange := (1, 10)\<rparr>))"
proof -
  have view: "filteredResumes sample (sampleView\<lparr>scoreRange := (1, 10)\<rparr>)
     = Inr [display sampleEnvelope 0 ann, display sampleEnvelope 1 bob]"
    by code_simp
  from filtered_view_subseq [OF view] view show ?thesis by simp
qed

subsection \<open>C10: the key skills\<close>

text \<open>
  C10: after a successful submission the entry \<^verbatim>\<open>keySkills\<close> holds the JSON text of the
  comma-split of the required-skills string, and the results view reads that list back
  (the JSON text of the list parses back to the list). The list is cut at the commas and
  nowhere else, and nothing is trimmed or dropped: no piece contains a comma, there is
  one piece more than there are commas, and joining the pieces with commas gives the
  string back. Every piece is rendered as a key-skill chip. For the empty string the list
  is the one empty skill, rendered as one chip.
\<close>

theorem key_skills_are_comma_split:
  assumes "validForm (formData st)"
    and "fetch (buildRequest b st) = Responded status (Some result)" and "ok status"
    and "dataResult result = Inr written"
    and "JSON_stringify b (JArr (map JStr (split_comma (requiredSkills (formData st))))) \<noteq> []"
    and "JSON_parse b
           (JSON_stringify b (JArr (map JStr (split_comma (requiredSkills (formData st))))))
         = Some (JArr (map JStr (split_comma (requiredSkills (formData st)))))"
  shows "localStorage (handleSubmit b fetch st) ''keySkills''
           = Some (JSON_stringify b (JArr (map JStr (split_comma (requiredSkills (formData st))))))
    \<and> userKeySkills (loadStored b (localStorage (handleSubmit b fetch st)) initial_list_state)
           = map JStr (split_comma (requiredSkills (formData st)))
    \<and> join_comma (split_comma (requiredSkills (formData st))) = requiredSkills (formData st)
    \<and> (\<forall>w \<in> set (split_comma (requiredSkills (formData st))). CHR '','' \<notin> set w)
    \<and> length (split_comma (requiredSkills (formData st)))
           = Suc (count_list (requiredSkills (formData st)) (CHR '',''))
    \<and> keySkillsView (loadStored b (localStorage (handleSubmit b fetch st)) initial_list_state)
           = Chips (map JStr (split_comma (requiredSkills (formData st))))
    \<and> (requiredSkills (formData st) = [] \<longrightarrow>
          userKeySkills (loadStored b (localStorage (handleSubmit b fetch st)) initial_list_state)
            = [JStr []]
        \<and> keySkillsView (loadStored b (localStorage (handleSubmit b fetch st)) initial_list_state)
            = Chips [JStr []])"
proof -
  let ?sent = "st\<lparr>requests := requests st @ [buildRequest b st]\<rparr>"
  let ?store = "localStorage (handleSubmit b fetch st)"
  let ?pieces = "split_comma (requiredSkills (formData st))"
  have h: "handleSubmit b fetch st = succeed b written ?sent"
    using assms(1-4) by (rule handleSubmit_success)
  have k: "?store ''keySkills'' = Some (JSON_stringify b (JArr (map JStr ?pieces)))"
    by (simp add: h localStorage_succeed)
  have u: "userKeySkills (loadStored b ?store initial_list_state) = map JStr ?pieces"
    using k assms(5,6) by (intro loadStored_skills) (simp_all add: getItem_def)
  have v: "keySkillsView (loadStored b ?store initial_list_state) = Chips (map JStr ?pieces)"
    using u split_comma_nonempty [of "requiredSkills (formData st)"]
    by (simp add: keySkillsView_def)
  have e: "userKeySkills (loadStored b ?store initial_list_state) = [JStr []]
        \<and> keySkillsView (loadStored b ?store initial_list_state) = Chips [JStr []]"
    if "requiredSkills (formData st) = []"
    using u v that by simp
  show ?thesis
    using k u v e join_split_comma split_comma_no_comma length_split_comma by blast
qed

theorem key_skills_are_comma_split_witness:
  "validForm (formData commaApp) \<and> requiredSkills (formData commaApp) = ''sql, go,,''
   \<and> userKeySkills (loadStored sample
         (localStorage (handleSubmit sample (respondWith sampleEnvelope) commaApp))
         initial_list_state) = [JStr ''sql'', JStr '' go'', JStr [], JStr []]
   \<and> keySkillsView (loadStored sample
         (localStorage (handleSubmit sample (respondWith sampleEnvelope) commaApp))
         initial_list_state) = Chips [JStr ''sql'', JStr '' go'', JStr [], JStr []]
   \<and> validForm (formData unskilledApp) \<and> requiredSkills (formData unskilledApp) = []
   \<and> userKeySkills (loadStored sample
         (localStorage (handleSubmit sample (respondWith sampleEnvelope) unskilledApp))
         initial_list_state) = [JStr []]
   \<and> keySkillsView (loadStored sample
         (localStorage (handleSubmit sample (respondWith sampleEnvelope) unskilledApp))
         initial_list_state) = Chips [JStr []]"
proof -
  have ok: "ok 200" by code_simp
  have written:
    "dataResult (JObj [(''data'', JObj [(''result'', sampleEnvelope)])]) = Inr sampleEnvelope"
    by code_simp
  have valid: "validForm (formData commaApp)" by code_simp
  have resp: "respondWith sampleEnvelope (buildRequest sample commaApp)
       = Responded 200 (Some (JObj [(''data'', JObj [(''result'', sampleEnvelope)])]))"
    by (simp add: respondWith_def)
  have nonempty:
    "JSON_stringify sample
       (JArr (map JStr (split_comma (requiredSkills (formData commaApp))))) \<noteq> []"
    by code_simp
  have reread:
    "JSON_parse sample
       (JSON_stringify sample
          (JArr (map JStr (split_comma (requiredSkills (formData commaApp))))))
     = Some (JArr (map JStr (split_comma (requiredSkills (formData commaApp)))))"
    by code_simp
  have skills: "requiredSkills (formData commaApp) = ''sql, go,,''" by code_simp
  have pieces: "split_comma ''sql, go,,'' = [''sql'', '' go'', [], []]" by code_simp
  have valid': "validForm (formData unskilledApp)" by code_simp
  have resp': "respondWith sampleEnvelope (buildRequest sample unskilledApp)
       = Responded 200 (Some (JObj [(''data'', JObj [(''result'', sampleEnvelope)])]))"
    by (simp add: respondWith_def)
  have nonempty':
    "JSON_stringify sample
       (JArr (map JStr (split_comma (requiredSkills (formData unskilledApp))))) \<noteq> []"
    by code_simp
  have reread':
    "JSON_parse sample
       (JSON_stringify sample
          (JArr (map JStr (split_comma (requiredSkills (formData unskilledApp))))))
     = Some (JArr (map JStr (split_comma (requiredSkills (formData unskilledApp)))))"
    by code_simp
  have none: "requiredSkills (formData unskilledApp) = []" by code_simp
  note commas = key_skills_are_comma_split
    [where fetch = "respondWith sampleEnvelope" and b = sample and st = commaApp,
      OF valid resp ok written nonempty reread]
  note empty = key_skills_are_comma_split
    [where fetch = "respondWith sampleEnvelope" and b = sample and st = unskilledApp,
      OF valid' resp' ok written nonempty' reread']
  have one: "userKeySkills (loadStored sample
         (localStorage (handleSubmit sample (respondWith sampleEnvelope) commaApp))
         initial_list_state) = [JStr ''sql'', JStr '' go'', JStr [], JStr []]"
    "keySkillsView (loadStored sample
         (localStorage (handleSubmit sample (respondWith sampleEnvelope) commaApp))
         initial_list_state) = Chips [JStr ''sql'', JStr '' go'', JStr [], JStr []]"
    using commas by (simp_all add: skills pieces)
  show ?thesis
    using valid skills one valid' none empty by blast
qed

end
